theory Spec2Isabelle
  imports
    Complex_Main
    "HOL-Library.Char_ord"
    "HOL-Library.List_Lexorder"
    "HOL-Library.Multiset"
begin

section \<open>Python values, exceptions and float arithmetic\<close>

text \<open>
  The two scripts (\<^verbatim>\<open>scripts/analyser.py\<close> and
  \<^verbatim>\<open>scripts/bike_shops_vienna_scraper.py\<close>) are embedded function by function.
  A Python call that can raise returns \<open>exn + 'a\<close>, with \<open>Inl\<close> the exception that
  propagates.

  A Python float is a rational number, a NaN or an infinity. Arithmetic on the finite
  values is exact: the rounding of binary double arithmetic is not part of the model,
  so the decimal literal \<^verbatim>\<open>100.9\<close> is the rational \<open>1009 / 10\<close>.
\<close>

datatype exn =
    KeyError | TypeError | ValueError | OverflowError | ZeroDivisionError | IndexError
  | RequestException | JSONDecodeError

datatype pyfloat = Fin rat | NaN | PosInf | NegInf

datatype pyval = PNone | PBool bool | PInt int | PFloat pyfloat | PStr string

fun fsgn :: "pyfloat \<Rightarrow> rat" where
  "fsgn (Fin a) = sgn a"
| "fsgn NaN = 0"
| "fsgn PosInf = 1"
| "fsgn NegInf = - 1"

definition inf_of_sign :: "rat \<Rightarrow> pyfloat" where
  "inf_of_sign s = (if s = 0 then NaN else if 0 < s then PosInf else NegInf)"

text \<open>\<^verbatim>\<open>x * y\<close> on floats.\<close>

fun fmul :: "pyfloat \<Rightarrow> pyfloat \<Rightarrow> pyfloat" where
  "fmul (Fin a) (Fin b) = Fin (a * b)"
| "fmul NaN y = NaN"
| "fmul x NaN = NaN"
| "fmul x y = inf_of_sign (fsgn x * fsgn y)"

text \<open>\<^verbatim>\<open>x - y\<close> on floats.\<close>

fun fsub :: "pyfloat \<Rightarrow> pyfloat \<Rightarrow> pyfloat" where
  "fsub (Fin a) (Fin b) = Fin (a - b)"
| "fsub NaN y = NaN"
| "fsub x NaN = NaN"
| "fsub PosInf PosInf = NaN"
| "fsub NegInf NegInf = NaN"
| "fsub PosInf y = PosInf"
| "fsub NegInf y = NegInf"
| "fsub (Fin a) PosInf = NegInf"
| "fsub (Fin a) NegInf = PosInf"

text \<open>
  \<^verbatim>\<open>x / y\<close> on floats: Python raises ZeroDivisionError for a zero divisor,
  whatever the dividend is (it never returns an infinity or a NaN there).
\<close>

fun fdiv :: "pyfloat \<Rightarrow> pyfloat \<Rightarrow> exn + pyfloat" where
  "fdiv x (Fin b) =
     (if b = 0 then Inl ZeroDivisionError
      else (case x of
              Fin a \<Rightarrow> Inr (Fin (a / b))
            | NaN \<Rightarrow> Inr NaN
            | PosInf \<Rightarrow> Inr (inf_of_sign (sgn b))
            | NegInf \<Rightarrow> Inr (inf_of_sign (- sgn b))))"
| "fdiv NaN y = Inr NaN"
| "fdiv x NaN = Inr NaN"
| "fdiv (Fin a) y = Inr (Fin 0)"
| "fdiv x y = Inr NaN"

text \<open>
  \<^verbatim>\<open>round(x, 2)\<close>: to the nearest multiple of 0.01, a tie to the even one;
  NaN and the infinities round to themselves.
\<close>

definition round_half_even :: "rat \<Rightarrow> int" where
  "round_half_even x =
     (let f = \<lfloor>x\<rfloor>; d = x - of_int f
      in if d < 1 / 2 then f
         else if 1 / 2 < d then f + 1
         else if even f then f else f + 1)"

definition round2 :: "rat \<Rightarrow> rat" where
  "round2 x = of_int (round_half_even (x * 100)) / 100"

fun py_round2 :: "pyfloat \<Rightarrow> pyfloat" where
  "py_round2 (Fin a) = Fin (round2 a)"
| "py_round2 x = x"

text \<open>
  The conversion of a Python int to a float (in \<^verbatim>\<open>float(n)\<close> and in
  \<^verbatim>\<open>n * x\<close>): an int that rounds beyond the largest double raises OverflowError.
\<close>

definition int_to_float :: "int \<Rightarrow> exn + pyfloat" where
  "int_to_float n =
     (if 2 ^ 1024 - 2 ^ 970 \<le> \<bar>n\<bar> then Inl OverflowError else Inr (Fin (of_int n)))"

text \<open>\<^verbatim>\<open>price * r\<close> for a float \<open>r\<close>: a string or None on the left raises TypeError.\<close>

fun py_mul_float :: "pyval \<Rightarrow> pyfloat \<Rightarrow> exn + pyfloat" where
  "py_mul_float (PFloat a) r = Inr (fmul a r)"
| "py_mul_float (PInt n) r =
     (case int_to_float n of Inl e \<Rightarrow> Inl e | Inr a \<Rightarrow> Inr (fmul a r))"
| "py_mul_float (PBool b) r = Inr (fmul (Fin (if b then 1 else 0)) r)"
| "py_mul_float (PStr s) r = Inl TypeError"
| "py_mul_float PNone r = Inl TypeError"

subsection \<open>The builtin \<^verbatim>\<open>float\<close> on strings\<close>

text \<open>
  The grammar of the Python language reference for \<^verbatim>\<open>float(str)\<close>: surrounding
  whitespace is stripped; an optional sign; then \<^verbatim>\<open>inf\<close>, \<^verbatim>\<open>infinity\<close>
  or \<^verbatim>\<open>nan\<close> in any case, or a decimal number with an optional exponent, digits
  grouped by single underscores. Anything else raises ValueError.
\<close>

definition is_digit :: "char \<Rightarrow> bool" where
  "is_digit c = (c \<in> set ''0123456789'')"

definition digit_val :: "char \<Rightarrow> nat" where
  "digit_val c = of_char c - 48"

definition is_space :: "char \<Rightarrow> bool" where
  "is_space c = ((of_char c :: nat) \<in> set [9, 10, 11, 12, 13, 28, 29, 30, 31, 32])"

definition strip :: "string \<Rightarrow> string" where
  "strip s = rev (dropWhile is_space (rev (dropWhile is_space s)))"

definition lower_char :: "char \<Rightarrow> char" where
  "lower_char c =
     (if CHR ''A'' \<le> c \<and> c \<le> CHR ''Z'' then char_of (of_char c + (32 :: nat)) else c)"

definition lower :: "string \<Rightarrow> string" where
  "lower s = map lower_char s"

fun digitpart_rest :: "string \<Rightarrow> string \<times> string" where
  "digitpart_rest [] = ([], [])"
| "digitpart_rest [c] = (if is_digit c then ([c], []) else ([], [c]))"
| "digitpart_rest (c # d # cs) =
     (if is_digit c then (case digitpart_rest (d # cs) of (ds, r) \<Rightarrow> (c # ds, r))
      else if c = CHR ''_'' \<and> is_digit d then (case digitpart_rest cs of (ds, r) \<Rightarrow> (d # ds, r))
      else ([], c # d # cs))"

definition digitpart :: "string \<Rightarrow> (string \<times> string) option" where
  "digitpart s =
     (case s of
        [] \<Rightarrow> None
      | c # cs \<Rightarrow>
          if is_digit c then (case digitpart_rest cs of (ds, r) \<Rightarrow> Some (c # ds, r)) else None)"

text \<open>The digits before the point, the digits after it, and what follows the number.\<close>

definition parse_number :: "string \<Rightarrow> (string \<times> string \<times> string) option" where
  "parse_number s =
     (case digitpart s of
        Some (ip, r) \<Rightarrow>
          (case r of
             c # r' \<Rightarrow>
               if c = CHR ''.'' then
                 (case digitpart r' of
                    Some (fp, r'') \<Rightarrow> Some (ip, fp, r'')
                  | None \<Rightarrow> Some (ip, [], r'))
               else Some (ip, [], r)
           | [] \<Rightarrow> Some (ip, [], r))
      | None \<Rightarrow>
          (case s of
             c # r' \<Rightarrow>
               if c = CHR ''.'' then
                 (case digitpart r' of
                    Some (fp, r'') \<Rightarrow> Some ([], fp, r'')
                  | None \<Rightarrow> None)
               else None
           | [] \<Rightarrow> None))"

definition nat_of_digits :: "string \<Rightarrow> nat" where
  "nat_of_digits ds = foldl (\<lambda>a c. 10 * a + digit_val c) 0 ds"

text \<open>The exponent part, when the rest of the string is one: its value.\<close>

definition parse_exponent :: "string \<Rightarrow> int option" where
  "parse_exponent s =
     (case s of
        [] \<Rightarrow> Some 0
      | c # r \<Rightarrow>
          if c = CHR ''e'' \<or> c = CHR ''E'' then
            (case r of
               [] \<Rightarrow> None
             | g # r' \<Rightarrow>
                 (case digitpart (if g = CHR ''+'' \<or> g = CHR ''-'' then r' else r) of
                    Some (ds, []) \<Rightarrow>
                      Some (if g = CHR ''-'' then - int (nat_of_digits ds) else int (nat_of_digits ds))
                  | _ \<Rightarrow> None))
          else None)"

definition scale10 :: "nat \<Rightarrow> int \<Rightarrow> rat" where
  "scale10 m e = (if 0 \<le> e then of_nat m * 10 ^ nat e else of_nat m / 10 ^ nat (- e))"

definition parse_floatnumber :: "string \<Rightarrow> rat option" where
  "parse_floatnumber s =
     (case parse_number s of
        None \<Rightarrow> None
      | Some (ip, fp, r) \<Rightarrow>
          (case parse_exponent r of
             None \<Rightarrow> None
           | Some e \<Rightarrow> Some (scale10 (nat_of_digits (ip @ fp)) (e - int (length fp)))))"

definition str_to_float :: "string \<Rightarrow> exn + pyfloat" where
  "str_to_float s =
     (let t = strip s;
          neg = (case t of [] \<Rightarrow> False | c # cs \<Rightarrow> c = CHR ''-'');
          u = (case t of [] \<Rightarrow> t | c # cs \<Rightarrow> if c = CHR ''-'' \<or> c = CHR ''+'' then cs else t);
          l = lower u
      in if l = ''inf'' \<or> l = ''infinity'' then Inr (if neg then NegInf else PosInf)
         else if l = ''nan'' then Inr NaN
         else (case parse_floatnumber u of
                 None \<Rightarrow> Inl ValueError
               | Some q \<Rightarrow> Inr (Fin (if neg then - q else q))))"

text \<open>The builtin \<^verbatim>\<open>float(val)\<close>.\<close>

fun py_float :: "pyval \<Rightarrow> exn + pyfloat" where
  "py_float PNone = Inl TypeError"
| "py_float (PBool b) = Inr (Fin (if b then 1 else 0))"
| "py_float (PInt n) = int_to_float n"
| "py_float (PFloat x) = Inr x"
| "py_float (PStr s) = str_to_float s"

text \<open>\<^verbatim>\<open>pd.isna(val)\<close> on a scalar: None and the float NaN are missing values.\<close>

fun pd_isna :: "pyval \<Rightarrow> bool" where
  "pd_isna PNone = True"
| "pd_isna (PFloat NaN) = True"
| "pd_isna v = False"

section \<open>analyser.py\<close>

subsection \<open>The CPI table and \<^verbatim>\<open>adjust_for_inflation\<close>\<close>

definition cpi_2015_base :: "int \<rightharpoonup> rat" where
  "cpi_2015_base = map_of
     [(2015, 100), (2016, 1009 / 10), (2017, 103), (2018, 1051 / 10), (2019, 1067 / 10),
      (2020, 1082 / 10), (2021, 1112 / 10), (2022, 1207 / 10), (2023, 1301 / 10),
      (2024, 134), (2025, 13678 / 100)]"

text \<open>
  The body of the \<^verbatim>\<open>try\<close> looks both years up first, then divides, multiplies and
  rounds; \<^verbatim>\<open>except KeyError\<close> turns a missing year into None and lets every
  other exception through.
\<close>

definition adjust_for_inflation :: "pyval \<Rightarrow> int \<Rightarrow> int \<Rightarrow> (int \<rightharpoonup> rat) \<Rightarrow> exn + pyval" where
  "adjust_for_inflation price base_year target_year cpi_table =
     (case cpi_table base_year of
        None \<Rightarrow> Inr PNone
      | Some cpi_base \<Rightarrow>
          (case cpi_table target_year of
             None \<Rightarrow> Inr PNone
           | Some cpi_target \<Rightarrow>
               (case fdiv (Fin cpi_target) (Fin cpi_base) of
                  Inl e \<Rightarrow> (if e = KeyError then Inr PNone else Inl e)
                | Inr ratio \<Rightarrow>
                    (case py_mul_float price ratio of
                       Inl e \<Rightarrow> (if e = KeyError then Inr PNone else Inl e)
                     | Inr x \<Rightarrow> Inr (PFloat (py_round2 x))))))"

subsection \<open>\<^verbatim>\<open>is_float\<close> and the price-validity tag\<close>

text \<open>
  The guard \<^verbatim>\<open>pd.isna(val) or val == "" or val is None\<close>, then
  \<^verbatim>\<open>float(val)\<close>; \<^verbatim>\<open>except (ValueError, TypeError)\<close> returns False
  and lets every other exception through.
\<close>

definition is_float :: "pyval \<Rightarrow> exn + bool" where
  "is_float val =
     (if pd_isna val \<or> val = PStr [] \<or> val = PNone then Inr False
      else (case py_float val of
              Inr x \<Rightarrow> Inr True
            | Inl e \<Rightarrow> if e = ValueError \<or> e = TypeError then Inr False else Inl e))"

text \<open>
  \<^verbatim>\<open>Series.apply\<close> and \<^verbatim>\<open>DataFrame.apply(axis=1)\<close>: the function runs
  row by row, and the first exception aborts the whole call.
\<close>

fun apply_rows :: "('a \<Rightarrow> exn + 'b) \<Rightarrow> 'a list \<Rightarrow> exn + 'b list" where
  "apply_rows f [] = Inr []"
| "apply_rows f (x # xs) =
     (case f x of
        Inl e \<Rightarrow> Inl e
      | Inr y \<Rightarrow> (case apply_rows f xs of Inl e \<Rightarrow> Inl e | Inr ys \<Rightarrow> Inr (y # ys)))"

text \<open>
  A row of the table, with the columns the script reads. The two date columns hold
  type \<open>'d\<close>: the cell as loaded, and a timestamp or NaT (\<open>None\<close>) after
  \<^verbatim>\<open>pd.to_datetime(..., errors="coerce")\<close>.
\<close>

record 'd row =
  offers_repair :: pyval
  first_price :: pyval
  current_price :: pyval
  first_price_date :: 'd
  current_price_date :: 'd

text \<open>The lambda of \<^verbatim>\<open>df["price_info"]\<close>, on the two validity flags of a row.\<close>

definition price_info :: "bool \<Rightarrow> bool \<Rightarrow> string" where
  "price_info first_price_valid current_price_valid =
     (if first_price_valid \<and> current_price_valid then ''both''
      else if first_price_valid then ''only_first''
      else if current_price_valid then ''only_current''
      else ''none'')"

text \<open>
  The columns \<^verbatim>\<open>First_Price_Valid\<close>, \<^verbatim>\<open>Current_Price_Valid\<close> and
  \<^verbatim>\<open>price_info\<close> of the whole table, in the order the script computes them.
\<close>

definition price_info_col :: "'d row list \<Rightarrow> exn + string list" where
  "price_info_col df =
     (case apply_rows is_float (map first_price df) of
        Inl e \<Rightarrow> Inl e
      | Inr first_price_valid \<Rightarrow>
          (case apply_rows is_float (map current_price df) of
             Inl e \<Rightarrow> Inl e
           | Inr current_price_valid \<Rightarrow>
               Inr (map (\<lambda>(f, c). price_info f c) (zip first_price_valid current_price_valid))))"

subsection \<open>The yes subset and its two partitions\<close>

text \<open>
  A timestamp: the calendar date and the nanoseconds since midnight, compared in that
  order.
\<close>

record timestamp =
  year :: int
  month :: nat
  day :: nat
  time_ns :: nat

definition ts_less :: "timestamp \<Rightarrow> timestamp \<Rightarrow> bool" where
  "ts_less a b =
     (year a < year b \<or>
      (year a = year b \<and>
        (month a < month b \<or>
         (month a = month b \<and>
           (day a < day b \<or> (day a = day b \<and> time_ns a < time_ns b))))))"

definition ts_2021_01_01 :: timestamp where
  "ts_2021_01_01 = \<lparr>year = 2021, month = 1, day = 1, time_ns = 0\<rparr>"

text \<open>
  \<^verbatim>\<open>.str.lower().str.startswith("yes", na=False)\<close> on a cell: a cell that is not a
  string counts as False.
\<close>

definition offers_yes :: "pyval \<Rightarrow> bool" where
  "offers_yes v = (case v of PStr s \<Rightarrow> take 3 (lower s) = ''yes'' | _ \<Rightarrow> False)"

text \<open>
  \<^verbatim>\<open>yes_subset\<close> after both date columns are converted; \<open>to_datetime\<close> is
  pandas' parser, a parameter of the model.
\<close>

definition yes_subset :: "(pyval \<Rightarrow> timestamp option) \<Rightarrow> pyval row list \<Rightarrow> timestamp option row list" where
  "yes_subset to_datetime df =
     map (\<lambda>r. \<lparr>offers_repair = offers_repair r, first_price = first_price r,
                current_price = current_price r,
                first_price_date = to_datetime (first_price_date r),
                current_price_date = to_datetime (current_price_date r)\<rparr>)
       (filter (\<lambda>r. offers_yes (offers_repair r)) df)"

text \<open>A comparison with NaT is False, and the year of NaT is NaN, which is not 2025.\<close>

definition condition_first_before_2021 :: "timestamp option row \<Rightarrow> bool" where
  "condition_first_before_2021 r =
     (case first_price_date r of None \<Rightarrow> False | Some d \<Rightarrow> ts_less d ts_2021_01_01)"

definition condition_current_in_2025 :: "timestamp option row \<Rightarrow> bool" where
  "condition_current_in_2025 r =
     (case current_price_date r of None \<Rightarrow> False | Some d \<Rightarrow> year d = 2025)"

definition subset_a :: "timestamp option row list \<Rightarrow> timestamp option row list" where
  "subset_a ys = filter (\<lambda>r. condition_first_before_2021 r \<and> condition_current_in_2025 r) ys"

definition subset_b :: "timestamp option row list \<Rightarrow> timestamp option row list" where
  "subset_b ys = filter (\<lambda>r. \<not> (condition_first_before_2021 r \<and> condition_current_in_2025 r)) ys"

subsection \<open>The inflation-adjusted first price and the price increase\<close>

text \<open>
  The lambda of \<^verbatim>\<open>First Price (Inflation adjusted)\<close>. The year of NaT is NaN, which
  is no key of the table.
\<close>

definition first_price_adjusted :: "timestamp option row \<Rightarrow> exn + pyval" where
  "first_price_adjusted r =
     (case first_price_date r of
        None \<Rightarrow> Inr PNone
      | Some d \<Rightarrow> adjust_for_inflation (first_price r) (year d) 2025 cpi_2015_base)"

text \<open>
  The lambda of \<^verbatim>\<open>Price Increase (%)\<close>, on the Current Price cell and the adjusted
  first price of a row: \<^verbatim>\<open>and\<close> evaluates its right side only when the left is
  true.
\<close>

definition price_increase :: "pyval \<Rightarrow> pyval \<Rightarrow> exn + pyval" where
  "price_increase cur adj =
     (case is_float cur of
        Inl e \<Rightarrow> Inl e
      | Inr False \<Rightarrow> Inr PNone
      | Inr True \<Rightarrow>
          (case is_float adj of
             Inl e \<Rightarrow> Inl e
           | Inr False \<Rightarrow> Inr PNone
           | Inr True \<Rightarrow>
               (case py_float cur of
                  Inl e \<Rightarrow> Inl e
                | Inr c \<Rightarrow>
                    (case py_float adj of
                       Inl e \<Rightarrow> Inl e
                     | Inr a \<Rightarrow>
                         (case fdiv (fsub c a) a of
                            Inl e \<Rightarrow> Inl e
                          | Inr q \<Rightarrow> Inr (PFloat (py_round2 (fmul q (Fin 100)))))))))"

text \<open>The two new columns of \<^verbatim>\<open>subset_a\<close>, one \<^verbatim>\<open>apply\<close> after the other.\<close>

definition adjusted_col :: "timestamp option row list \<Rightarrow> exn + pyval list" where
  "adjusted_col a = apply_rows first_price_adjusted a"

definition price_increase_col :: "timestamp option row list \<Rightarrow> exn + pyval list" where
  "price_increase_col a =
     (case adjusted_col a of
        Inl e \<Rightarrow> Inl e
      | Inr adjs \<Rightarrow> apply_rows (\<lambda>(r, adj). price_increase (current_price r) adj) (zip a adjs))"

section \<open>bike\_shops\_vienna\_scraper.py\<close>

text \<open>
  The snapshot index is the parameter \<open>requests_get\<close>: for a website it raises, or
  answers with a status code and a body whose \<^verbatim>\<open>json()\<close> raises or is an array of
  rows of strings. What the function does besides returning is a list of events: the
  request it sends and the line it prints in its handler.
\<close>

record http_response =
  status_code :: int
  json_body :: "exn + string list list"

datatype event = HttpGet string | Printed string exn

definition index1 :: "'a list \<Rightarrow> exn + 'a" where
  "index1 entry = (case entry of x # y # zs \<Rightarrow> Inr y | _ \<Rightarrow> Inl IndexError)"

definition index_first :: "'a list \<Rightarrow> exn + 'a" where
  "index_first xs = (case xs of [] \<Rightarrow> Inl IndexError | x # zs \<Rightarrow> Inr x)"

definition index_last :: "'a list \<Rightarrow> exn + 'a" where
  "index_last xs = (if xs = [] then Inl IndexError else Inr (last xs))"

text \<open>The f-string \<^verbatim>\<open>f"{t[:4]}-{t[4:6]}-{t[6:8]}"\<close>.\<close>

definition format_date :: "string \<Rightarrow> string" where
  "format_date t = take 4 t @ ''-'' @ take 2 (drop 4 t) @ ''-'' @ take 2 (drop 6 t)"

definition get_oldest_and_newest_archive_date ::
  "(string \<Rightarrow> exn + http_response) \<Rightarrow> string \<Rightarrow> (string option \<times> string option) \<times> event list" where
  "get_oldest_and_newest_archive_date requests_get url =
     (if url = [] then ((None, None), [])
      else
        (case requests_get url of
           Inl e \<Rightarrow> ((None, None), [HttpGet url, Printed url e])
         | Inr response \<Rightarrow>
             if status_code response \<noteq> 200 then ((None, None), [HttpGet url])
             else
               (case json_body response of
                  Inl e \<Rightarrow> ((None, None), [HttpGet url, Printed url e])
                | Inr data \<Rightarrow>
                    if length data < 2 then ((None, None), [HttpGet url])
                    else
                      (case apply_rows index1 (drop 1 data) of
                         Inl e \<Rightarrow> ((None, None), [HttpGet url, Printed url e])
                       | Inr timestamps \<Rightarrow>
                           (case index_first (sort timestamps) of
                              Inl e \<Rightarrow> ((None, None), [HttpGet url, Printed url e])
                            | Inr oldest \<Rightarrow>
                                (case index_last (sort timestamps) of
                                   Inl e \<Rightarrow> ((None, None), [HttpGet url, Printed url e])
                                 | Inr newest \<Rightarrow>
                                     ((Some (format_date oldest), Some (format_date newest)),
                                      [HttpGet url])))))))"

section \<open>What the specification names\<close>

text \<open>
  The cells a loaded table holds: a string, a float (NaN for a missing value), a bool or
  a 64-bit integer.
\<close>

definition int64_cell :: "pyval \<Rightarrow> bool" where
  "int64_cell v = (case v of PInt n \<Rightarrow> - (2 ^ 63) \<le> n \<and> n < 2 ^ 63 | _ \<Rightarrow> True)"



section \<open>Example tables and an example snapshot index\<close>

text \<open>
  Concrete inputs at which the theorems below are evaluated: a parser for three date
  strings, a table with numeric price columns, a table with text price columns, single
  rows after the date conversion, and a snapshot index with three captures.
\<close>

definition example_to_datetime :: "pyval \<Rightarrow> timestamp option" where
  "example_to_datetime v =
     (if v = PStr ''2019-06-01'' then Some \<lparr>year = 2019, month = 6, day = 1, time_ns = 0\<rparr>
      else if v = PStr ''2025-02-10'' then Some \<lparr>year = 2025, month = 2, day = 10, time_ns = 0\<rparr>
      else if v = PStr ''2022-01-01'' then Some \<lparr>year = 2022, month = 1, day = 1, time_ns = 0\<rparr>
      else None)"

definition example_rows :: "pyval row list" where
  "example_rows =
     [\<lparr>offers_repair = PStr ''Yes, full service'', first_price = PInt 100, current_price = PInt 130,
       first_price_date = PStr ''2019-06-01'', current_price_date = PStr ''2025-02-10''\<rparr>,
      \<lparr>offers_repair = PStr ''yes'', first_price = PInt 80, current_price = PInt 95,
       first_price_date = PStr ''2022-01-01'', current_price_date = PStr ''2025-02-10''\<rparr>,
      \<lparr>offers_repair = PStr ''No'', first_price = PInt 50, current_price = PInt 60,
       first_price_date = PStr ''2019-06-01'', current_price_date = PStr ''2025-02-10''\<rparr>,
      \<lparr>offers_repair = PStr ''YES'', first_price = PInt 70, current_price = PInt 90,
       first_price_date = PStr ''n/a'', current_price_date = PStr ''2025-02-10''\<rparr>]"

definition row_example :: "timestamp option row" where
  "row_example = \<lparr>offers_repair = PStr ''Yes, full service'', first_price = PInt 100,
     current_price = PInt 130,
     first_price_date = Some \<lparr>year = 2019, month = 6, day = 1, time_ns = 0\<rparr>,
     current_price_date = Some \<lparr>year = 2025, month = 2, day = 10, time_ns = 0\<rparr>\<rparr>"

definition row_late :: "timestamp option row" where
  "row_late = \<lparr>offers_repair = PStr ''yes'', first_price = PInt 80,
     current_price = PInt 95,
     first_price_date = Some \<lparr>year = 2022, month = 1, day = 1, time_ns = 0\<rparr>,
     current_price_date = Some \<lparr>year = 2025, month = 2, day = 10, time_ns = 0\<rparr>\<rparr>"

definition row_text :: "timestamp option row" where
  "row_text = \<lparr>offers_repair = PStr ''yes'', first_price = PStr ''abc'',
     current_price = PStr ''130'',
     first_price_date = Some \<lparr>year = 2019, month = 6, day = 1, time_ns = 0\<rparr>,
     current_price_date = Some \<lparr>year = 2025, month = 2, day = 10, time_ns = 0\<rparr>\<rparr>"

definition text_rows :: "pyval row list" where
  "text_rows =
     [\<lparr>offers_repair = PStr ''yes'', first_price = PStr ''12.5'', current_price = PStr ''abc'',
       first_price_date = PStr ''2019-06-01'', current_price_date = PStr ''2025-02-10''\<rparr>,
      \<lparr>offers_repair = PStr ''no'', first_price = PStr ''100'', current_price = PStr ''130'',
       first_price_date = PStr ''2019-06-01'', current_price_date = PStr ''2025-02-10''\<rparr>,
      \<lparr>offers_repair = PFloat NaN, first_price = PFloat NaN, current_price = PStr ''7'',
       first_price_date = PFloat NaN, current_price_date = PFloat NaN\<rparr>,
      \<lparr>offers_repair = PStr ''yes'', first_price = PFloat NaN, current_price = PStr '''',
       first_price_date = PFloat NaN, current_price_date = PFloat NaN\<rparr>]"

definition row_zero :: "timestamp option row" where
  "row_zero = \<lparr>offers_repair = PStr ''Yes, full service'', first_price = PInt 0,
     current_price = PStr ''130'',
     first_price_date = Some \<lparr>year = 2019, month = 6, day = 1, time_ns = 0\<rparr>,
     current_price_date = Some \<lparr>year = 2025, month = 2, day = 10, time_ns = 0\<rparr>\<rparr>"

definition example_index :: "string \<Rightarrow> exn + http_response" where
  "example_index u = Inr \<lparr>status_code = 200, json_body = Inr
     [[''urlkey'', ''timestamp'', ''original''],
      [''at,example)/'', ''20190315120000'', ''http://example.at/''],
      [''at,example)/'', ''20101231235959'', ''http://example.at/''],
      [''at,example)/'', ''20150101000000'', ''http://example.at/'']]\<rparr>"

section \<open>Properties of the inflation adjustment\<close>

lemma cpi_dom: "dom cpi_2015_base = {2015..2025}"
proof -
  have "{2015..2025::int} = {2015, 2016, 2017, 2018, 2019, 2020, 2021, 2022, 2023, 2024, 2025}"
    by (auto, arith)
  then show ?thesis
    by (simp add: cpi_2015_base_def dom_map_of_conv_image_fst)
qed

lemma cpi_pos: "cpi_2015_base y = Some c \<Longrightarrow> 0 < c"
  by (auto simp: cpi_2015_base_def split: if_splits)










section \<open>Rows and columns\<close>

lemma apply_rows_Inl:
  "x \<in> set xs \<Longrightarrow> f x = Inl e \<Longrightarrow> \<exists>e'. apply_rows f xs = Inl e'"
  by (induction xs) (auto split: sum.splits)

lemma apply_rows_Inr:
  "apply_rows f xs = Inr ys \<Longrightarrow> length ys = length xs \<and> (\<forall>i<length xs. f (xs ! i) = Inr (ys ! i))"
proof (induction xs arbitrary: ys)
  case Nil then show ?case by simp
next
  case (Cons x xs)
  then show ?case by (auto split: sum.splits simp: nth_Cons split: nat.splits)
qed

lemma apply_rows_total:
  "(\<And>x. x \<in> set xs \<Longrightarrow> \<exists>y. f x = Inr y) \<Longrightarrow> \<exists>ys. apply_rows f xs = Inr ys"
  by (induction xs) (fastforce split: sum.splits)+

section \<open>A text price aborts the adjustment\<close>

lemma cpi_in_table: "2015 \<le> y \<Longrightarrow> y \<le> 2025 \<Longrightarrow> \<exists>c. cpi_2015_base y = Some c"
  using cpi_dom by (auto simp: dom_def set_eq_iff)

lemma adjust_str:
  "cpi_2015_base b = Some cb \<Longrightarrow> cpi_2015_base t = Some ct \<Longrightarrow>
     adjust_for_inflation (PStr s) b t cpi_2015_base = Inl TypeError"
  using cpi_pos[of b cb] by (simp add: adjust_for_inflation_def)

lemma subset_a_year:
  "r \<in> set (subset_a ys) \<Longrightarrow> first_price_date r = Some d \<Longrightarrow> year d \<le> 2021"
  by (auto simp: subset_a_def condition_first_before_2021_def ts_less_def ts_2021_01_01_def)

text \<open>
  C9. \<^verbatim>\<open>adjust_for_inflation\<close> catches KeyError only. With both years in the
  table, a price that is a string (numeric or not) raises TypeError at the multiplication
  instead of returning None. A qualifying row of \<^verbatim>\<open>subset_a\<close> whose First Price is a
  string and whose First Price Date is of 2015 or later therefore aborts the computation
  of both new columns.
\<close>

theorem adjust_for_inflation_string_price:
  "(cpi_2015_base base_year \<noteq> None \<and> cpi_2015_base target_year \<noteq> None \<longrightarrow>
      adjust_for_inflation (PStr s) base_year target_year cpi_2015_base = Inl TypeError) \<and>
   (r \<in> set (subset_a ys) \<and> first_price r = PStr s \<and> first_price_date r = Some d \<and> 2015 \<le> year d \<longrightarrow>
      first_price_adjusted r = Inl TypeError \<and>
      (\<exists>e. adjusted_col (subset_a ys) = Inl e) \<and>
      (\<exists>e. price_increase_col (subset_a ys) = Inl e))"
proof (intro conjI impI)
  assume "cpi_2015_base base_year \<noteq> None \<and> cpi_2015_base target_year \<noteq> None"
  then show "adjust_for_inflation (PStr s) base_year target_year cpi_2015_base = Inl TypeError"
    by (auto simp: adjust_str)
next
  assume a: "r \<in> set (subset_a ys) \<and> first_price r = PStr s \<and> first_price_date r = Some d \<and> 2015 \<le> year d"
  then have "year d \<le> 2025" using subset_a_year[of r ys d] by simp
  with a obtain c where c: "cpi_2015_base (year d) = Some c" using cpi_in_table by blast
  obtain c' where c': "cpi_2015_base 2025 = Some c'" using cpi_in_table[of 2025] by auto
  show f: "first_price_adjusted r = Inl TypeError"
    using a c c' by (simp add: first_price_adjusted_def adjust_str)
  from a f show e: "\<exists>e. adjusted_col (subset_a ys) = Inl e"
    unfolding adjusted_col_def by (blast intro: apply_rows_Inl)
  then show "\<exists>e. price_increase_col (subset_a ys) = Inl e"
    by (auto simp: price_increase_col_def)
qed

theorem adjust_for_inflation_string_price_witness:
  "cpi_2015_base 2019 \<noteq> None \<and> cpi_2015_base 2025 \<noteq> None \<and>
   adjust_for_inflation (PStr ''abc'') 2019 2025 cpi_2015_base = Inl TypeError \<and>
   row_text \<in> set (subset_a [row_text]) \<and>
   first_price_adjusted row_text = Inl TypeError \<and>
   (\<exists>e. price_increase_col (subset_a [row_text]) = Inl e)"
proof -
  have k: "cpi_2015_base 2019 \<noteq> None \<and> cpi_2015_base 2025 \<noteq> None"
    by code_simp
  have m: "row_text \<in> set (subset_a [row_text])"
    by code_simp
  have f: "first_price row_text = PStr ''abc''"
    and d: "first_price_date row_text = Some \<lparr>year = 2019, month = 6, day = 1, time_ns = 0\<rparr>"
    by (simp_all add: row_text_def)
  from adjust_for_inflation_string_price[of 2019 2025 "''abc''" row_text "[row_text]" "\<lparr>year = 2019, month = 6, day = 1, time_ns = 0\<rparr>"]
    k m f d
  show ?thesis by simp
qed

section \<open>The float-validity predicate\<close>

lemma str_to_float_error: "str_to_float s = Inl e \<Longrightarrow> e = ValueError"
  by (auto simp: str_to_float_def Let_def split: if_splits option.splits)

lemma int_to_float_error: "int_to_float n = Inl e \<Longrightarrow> e = OverflowError"
  by (auto simp: int_to_float_def split: if_splits)

lemma is_float_True_py_float: "is_float v = Inr True \<Longrightarrow> \<exists>x. py_float v = Inr x"
  by (auto simp: is_float_def split: if_splits sum.splits)

lemma int64_cell_is_float: "int64_cell v \<Longrightarrow> \<exists>b. is_float v = Inr b"
proof (cases v)
  case (PInt n)
  assume "int64_cell v"
  with PInt have "\<bar>n\<bar> \<le> 2 ^ 63" by (auto simp: int64_cell_def)
  moreover have "(2::int) ^ 63 < 2 ^ 1024 - 2 ^ 970" by simp
  ultimately have "\<not> 2 ^ 1024 - 2 ^ 970 \<le> \<bar>n\<bar>" by linarith
  with PInt have "is_float v = Inr True" by (simp add: is_float_def int_to_float_def)
  then show ?thesis by blast
next
  case (PStr s)
  then show ?thesis
    by (cases "str_to_float s") (auto simp: is_float_def dest: str_to_float_error)
qed (auto simp: is_float_def)

lemma is_float_12_5: "is_float (PStr ''12.5'') = Inr True"
  by code_simp

lemma is_float_abc: "is_float (PStr ''abc'') = Inr False"
  by code_simp




section \<open>The price-validity tag\<close>

lemma price_info_col_nth:
  assumes "\<forall>r\<in>set df. int64_cell (first_price r) \<and> int64_cell (current_price r)"
  shows "\<exists>tags. price_info_col df = Inr tags \<and> length tags = length df \<and>
           (\<forall>i<length df. tags ! i = price_info (is_float (first_price (df ! i)) = Inr True)
                                                 (is_float (current_price (df ! i)) = Inr True))"
proof -
  from assms obtain fv where fv: "apply_rows is_float (map first_price df) = Inr fv"
    using apply_rows_total[of "map first_price df" is_float] int64_cell_is_float by auto
  from assms obtain cv where cv: "apply_rows is_float (map current_price df) = Inr cv"
    using apply_rows_total[of "map current_price df" is_float] int64_cell_is_float by auto
  from apply_rows_Inr[OF fv]
  have lf: "length fv = length df" and nf: "\<And>i. i < length df \<Longrightarrow> is_float (first_price (df ! i)) = Inr (fv ! i)"
    by auto
  from apply_rows_Inr[OF cv]
  have lc: "length cv = length df" and nc: "\<And>i. i < length df \<Longrightarrow> is_float (current_price (df ! i)) = Inr (cv ! i)"
    by auto
  have "price_info_col df = Inr (map (\<lambda>(f, c). price_info f c) (zip fv cv))"
    using fv cv by (simp add: price_info_col_def)
  moreover have "\<forall>i<length df. map (\<lambda>(f, c). price_info f c) (zip fv cv) ! i =
      price_info (is_float (first_price (df ! i)) = Inr True) (is_float (current_price (df ! i)) = Inr True)"
    using lf lc nf nc by simp
  ultimately show ?thesis using lf lc by simp
qed

text \<open>
  C7. The tag is the four-way function of the two validity flags: both, only\_first,
  only\_current, none. On a loaded table the column \<^verbatim>\<open>price_info\<close> is computed for
  every row from the flags of that row; it does not change when the
  \<^verbatim>\<open>offers repair\<close> cells change; and a row with First Price "12.5" and Current
  Price "abc" is tagged only\_first.
\<close>

theorem price_info_truth_table:
  "price_info True True = ''both'' \<and>
   price_info True False = ''only_first'' \<and>
   price_info False True = ''only_current'' \<and>
   price_info False False = ''none'' \<and>
   ((\<forall>r\<in>set df. int64_cell (first_price r) \<and> int64_cell (current_price r)) \<longrightarrow>
      (\<exists>tags. price_info_col df = Inr tags \<and> length tags = length df \<and>
         (\<forall>i<length df. tags ! i = price_info (is_float (first_price (df ! i)) = Inr True)
                                               (is_float (current_price (df ! i)) = Inr True)))) \<and>
   price_info_col (map (\<lambda>r. r\<lparr>offers_repair := g r\<rparr>) df) = price_info_col df \<and>
   price_info_col [\<lparr>offers_repair = x, first_price = PStr ''12.5'', current_price = PStr ''abc'',
                    first_price_date = d1, current_price_date = d2\<rparr>] = Inr [''only_first'']"
proof (intro conjI impI)
  assume "\<forall>r\<in>set df. int64_cell (first_price r) \<and> int64_cell (current_price r)"
  then show "\<exists>tags. price_info_col df = Inr tags \<and> length tags = length df \<and>
         (\<forall>i<length df. tags ! i = price_info (is_float (first_price (df ! i)) = Inr True)
                                               (is_float (current_price (df ! i)) = Inr True))"
    by (rule price_info_col_nth)
next
  show "price_info_col (map (\<lambda>r. r\<lparr>offers_repair := g r\<rparr>) df) = price_info_col df"
  proof -
    have "map first_price (map (\<lambda>r. r\<lparr>offers_repair := g r\<rparr>) df) = map first_price df"
      and "map current_price (map (\<lambda>r. r\<lparr>offers_repair := g r\<rparr>) df) = map current_price df"
      by simp_all
    then show ?thesis
      by (simp only: price_info_col_def)
  qed
next
  show "price_info_col [\<lparr>offers_repair = x, first_price = PStr ''12.5'', current_price = PStr ''abc'',
                    first_price_date = d1, current_price_date = d2\<rparr>] = Inr [''only_first'']"
    by (simp add: price_info_col_def is_float_12_5 is_float_abc price_info_def)
qed (simp_all add: price_info_def)

theorem price_info_truth_table_witness:
  "list_all (\<lambda>r. int64_cell (first_price r) \<and> int64_cell (current_price r)) text_rows \<and>
   price_info_col text_rows = Inr [''only_first'', ''both'', ''only_current'', ''none''] \<and>
   (\<exists>tags. price_info_col text_rows = Inr tags \<and> length tags = length text_rows \<and>
      tags ! 0 = price_info (is_float (PStr ''12.5'') = Inr True) (is_float (PStr ''abc'') = Inr True))"
proof -
  have c: "list_all (\<lambda>r. int64_cell (first_price r) \<and> int64_cell (current_price r)) text_rows"
    by code_simp
  then have h: "\<forall>r\<in>set text_rows. int64_cell (first_price r) \<and> int64_cell (current_price r)"
    by (simp only: list_all_iff)
  have v: "price_info_col text_rows = Inr [''only_first'', ''both'', ''only_current'', ''none'']"
    by code_simp
  have z: "0 < length text_rows \<and> first_price (text_rows ! 0) = PStr ''12.5'' \<and> current_price (text_rows ! 0) = PStr ''abc''"
    by (simp add: text_rows_def)
  from price_info_truth_table[of text_rows g x d1 d2] h obtain tags where
    t: "price_info_col text_rows = Inr tags" "length tags = length text_rows"
      "\<forall>i<length text_rows. tags ! i = price_info (is_float (first_price (text_rows ! i)) = Inr True)
                                               (is_float (current_price (text_rows ! i)) = Inr True)"
    by blast
  from t(3) z have "tags ! 0 = price_info (is_float (PStr ''12.5'') = Inr True) (is_float (PStr ''abc'') = Inr True)"
    by metis
  with t c v show ?thesis by blast
qed

section \<open>The two partitions of the yes subset\<close>

text \<open>
  C5. A row of the yes subset is in \<^verbatim>\<open>subset_a\<close> exactly when its First Price Date
  is before 2021-01-01 and its Current Price Date is of the year 2025, and in
  \<^verbatim>\<open>subset_b\<close> exactly when not: a row with a NaT date, or with a First Price Date
  of 2022 or later, is in \<^verbatim>\<open>subset_b\<close>. The two partitions are disjoint and
  together hold every row of the yes subset, as often as it occurs there. For a calendar
  date, before 2021-01-01 means a year before 2021.
\<close>

theorem subset_partition:
  "(r \<in> set (subset_a ys) \<longleftrightarrow>
      r \<in> set ys \<and> (\<exists>d c. first_price_date r = Some d \<and> current_price_date r = Some c \<and>
                           ts_less d ts_2021_01_01 \<and> year c = 2025)) \<and>
   (r \<in> set (subset_b ys) \<longleftrightarrow>
      r \<in> set ys \<and> \<not> (\<exists>d c. first_price_date r = Some d \<and> current_price_date r = Some c \<and>
                           ts_less d ts_2021_01_01 \<and> year c = 2025)) \<and>
   (r \<in> set ys \<and> (first_price_date r = None \<or> current_price_date r = None) \<longrightarrow> r \<in> set (subset_b ys)) \<and>
   (r \<in> set ys \<and> first_price_date r = Some d \<and> 2022 \<le> year d \<longrightarrow> r \<in> set (subset_b ys)) \<and>
   set (subset_a ys) \<inter> set (subset_b ys) = {} \<and>
   set (subset_a ys) \<union> set (subset_b ys) = set ys \<and>
   mset (subset_a ys) + mset (subset_b ys) = mset ys \<and>
   (1 \<le> month d \<and> 1 \<le> day d \<longrightarrow> ts_less d ts_2021_01_01 = (year d < 2021))"
proof -
  have q: "(condition_first_before_2021 r \<and> condition_current_in_2025 r) =
           (\<exists>d c. first_price_date r = Some d \<and> current_price_date r = Some c \<and>
                           ts_less d ts_2021_01_01 \<and> year c = 2025)" for r :: "timestamp option row"
    by (auto simp: condition_first_before_2021_def condition_current_in_2025_def split: option.splits)
  have a: "r \<in> set (subset_a ys) \<longleftrightarrow>
      r \<in> set ys \<and> (\<exists>d c. first_price_date r = Some d \<and> current_price_date r = Some c \<and>
                           ts_less d ts_2021_01_01 \<and> year c = 2025)"
    unfolding subset_a_def set_filter q by blast
  have b: "r \<in> set (subset_b ys) \<longleftrightarrow>
      r \<in> set ys \<and> \<not> (\<exists>d c. first_price_date r = Some d \<and> current_price_date r = Some c \<and>
                           ts_less d ts_2021_01_01 \<and> year c = 2025)"
    unfolding subset_b_def set_filter q by blast
  have n: "r \<in> set ys \<and> (first_price_date r = None \<or> current_price_date r = None) \<longrightarrow> r \<in> set (subset_b ys)"
    unfolding b by auto
  have l: "r \<in> set ys \<and> first_price_date r = Some d \<and> 2022 \<le> year d \<longrightarrow> r \<in> set (subset_b ys)"
    unfolding b by (auto simp: ts_less_def ts_2021_01_01_def)
  have i: "set (subset_a ys) \<inter> set (subset_b ys) = {}"
    by (auto simp: subset_a_def subset_b_def)
  have u: "set (subset_a ys) \<union> set (subset_b ys) = set ys"
    by (auto simp: subset_a_def subset_b_def)
  have m: "mset (subset_a ys) + mset (subset_b ys) = mset ys"
    by (simp add: subset_a_def subset_b_def)
  have t: "1 \<le> month d \<and> 1 \<le> day d \<longrightarrow> ts_less d ts_2021_01_01 = (year d < 2021)"
    by (auto simp: ts_less_def ts_2021_01_01_def)
  from a b n l i u m t show ?thesis by blast
qed

theorem subset_partition_witness:
  "yes_subset example_to_datetime example_rows = [row_example, row_late,
      \<lparr>offers_repair = PStr ''YES'', first_price = PInt 70, current_price = PInt 90,
       first_price_date = None, current_price_date = Some \<lparr>year = 2025, month = 2, day = 10, time_ns = 0\<rparr>\<rparr>] \<and>
   row_example \<in> set (subset_a (yes_subset example_to_datetime example_rows)) \<and>
   row_late \<in> set (subset_b (yes_subset example_to_datetime example_rows)) \<and>
   row_late \<notin> set (subset_a (yes_subset example_to_datetime example_rows)) \<and>
   length (subset_a (yes_subset example_to_datetime example_rows)) = 1 \<and>
   length (subset_b (yes_subset example_to_datetime example_rows)) = 2"
proof -
  let ?ys = "yes_subset example_to_datetime example_rows"
  have y: "?ys = [row_example, row_late,
      \<lparr>offers_repair = PStr ''YES'', first_price = PInt 70, current_price = PInt 90,
       first_price_date = None, current_price_date = Some \<lparr>year = 2025, month = 2, day = 10, time_ns = 0\<rparr>\<rparr>]"
    by code_simp
  have l: "length (subset_a ?ys) = 1 \<and> length (subset_b ?ys) = 2"
    by code_simp
  have q: "row_example \<in> set ?ys \<and> (\<exists>d c. first_price_date row_example = Some d \<and> current_price_date row_example = Some c \<and>
                           ts_less d ts_2021_01_01 \<and> year c = 2025)"
    unfolding y by (simp add: row_example_def ts_less_def ts_2021_01_01_def)
  have p: "row_late \<in> set ?ys \<and> first_price_date row_late = Some \<lparr>year = 2022, month = 1, day = 1, time_ns = 0\<rparr> \<and>
           2022 \<le> year \<lparr>year = 2022, month = 1, day = 1, time_ns = 0\<rparr>"
    unfolding y by (simp add: row_late_def)
  from subset_partition[of row_example ?ys d] q have a: "row_example \<in> set (subset_a ?ys)"
    by blast
  from subset_partition[of row_late ?ys "\<lparr>year = 2022, month = 1, day = 1, time_ns = 0\<rparr>"] p
  have b: "row_late \<in> set (subset_b ?ys)"
    by blast
  from subset_partition[of row_late ?ys d] b have c: "row_late \<notin> set (subset_a ?ys)"
    by blast
  from y a b c l show ?thesis by blast
qed

section \<open>The price increase\<close>



text \<open>
  C2, as the program has it. With an adjusted first price of exactly 0, the price
  increase is None when the Current Price is not a valid float, and the division raises
  ZeroDivisionError when it is; in no case is the result a float, so no infinity and no
  NaN is produced.
\<close>

theorem price_increase_zero_adjusted:
  "(is_float cur = Inr True \<longrightarrow> price_increase cur (PFloat (Fin 0)) = Inl ZeroDivisionError) \<and>
   (is_float cur = Inr False \<longrightarrow> price_increase cur (PFloat (Fin 0)) = Inr PNone) \<and>
   price_increase cur (PFloat (Fin 0)) \<noteq> Inr (PFloat x)"
proof -
  have z: "is_float (PFloat (Fin 0)) = Inr True" by (simp add: is_float_def)
  have t: "price_increase cur (PFloat (Fin 0)) = Inl ZeroDivisionError" if "is_float cur = Inr True"
  proof -
    from that obtain c where "py_float cur = Inr c" using is_float_True_py_float by blast
    with that z show ?thesis by (simp add: price_increase_def)
  qed
  have f: "price_increase cur (PFloat (Fin 0)) = Inr PNone" if "is_float cur = Inr False"
    using that by (simp add: price_increase_def)
  have "price_increase cur (PFloat (Fin 0)) \<noteq> Inr (PFloat x)"
  proof (cases "is_float cur")
    case (Inl e) then show ?thesis by (simp add: price_increase_def)
  next
    case (Inr b) then show ?thesis using t f by (cases b) auto
  qed
  with t f show ?thesis by blast
qed

theorem price_increase_zero_adjusted_witness:
  "is_float (PStr ''130'') = Inr True \<and>
   price_increase (PStr ''130'') (PFloat (Fin 0)) = Inl ZeroDivisionError \<and>
   is_float (PStr ''abc'') = Inr False \<and>
   price_increase (PStr ''abc'') (PFloat (Fin 0)) = Inr PNone"
proof -
  have a: "is_float (PStr ''130'') = Inr True" and b: "is_float (PStr ''abc'') = Inr False"
    by code_simp+
  from price_increase_zero_adjusted[of "PStr ''130''" x] price_increase_zero_adjusted[of "PStr ''abc''" x] a b show ?thesis
    by blast
qed

text \<open>
  C2, as the specification has it, fails: the qualifying row with First Price 0 and
  Current Price "130" has the adjusted first price 0.0, and its price increase raises
  ZeroDivisionError instead of being None.
\<close>

theorem price_increase_zero_counterexample:
  "row_zero \<in> set (subset_a [row_zero]) \<and>
   first_price_adjusted row_zero = Inr (PFloat (Fin 0)) \<and>
   is_float (current_price row_zero) = Inr True \<and>
   price_increase (current_price row_zero) (PFloat (Fin 0)) = Inl ZeroDivisionError \<and>
   price_increase_col (subset_a [row_zero]) = Inl ZeroDivisionError"
  by code_simp

section \<open>The archive lookup\<close>





lemma hd_sort_Min: "xs \<noteq> [] \<Longrightarrow> hd (sort xs) = Min (set xs)"
proof -
  assume n: "xs \<noteq> []"
  then have s: "sort xs \<noteq> []" by (metis length_0_conv length_sort)
  then obtain y ys where y: "sort xs = y # ys" by (cases "sort xs") auto
  have "sorted (y # ys)" using y sorted_sort[where xs = xs] by simp
  then have "\<forall>z\<in>set (y # ys). y \<le> z" by auto
  moreover have "set (y # ys) = set xs" using y by (metis set_sort)
  ultimately have "Min (set xs) = y" by (intro Min_eqI) auto
  with y show ?thesis by simp
qed

lemma sorted_le_last: "sorted xs \<Longrightarrow> z \<in> set xs \<Longrightarrow> z \<le> last xs"
  by (induction xs) auto

lemma last_sort_Max: "xs \<noteq> [] \<Longrightarrow> last (sort xs) = Max (set xs)"
proof -
  assume n: "xs \<noteq> []"
  then have s: "sort xs \<noteq> []" by (metis length_0_conv length_sort)
  have "sorted (sort xs)" by simp
  then have "\<And>z. z \<in> set (sort xs) \<Longrightarrow> z \<le> last (sort xs)"
    by (rule sorted_le_last)
  then have le: "\<And>z. z \<in> set xs \<Longrightarrow> z \<le> last (sort xs)"
    by (simp only: set_sort)
  have "last (sort xs) \<in> set (sort xs)" using s by (rule last_in_set)
  then have m: "last (sort xs) \<in> set xs" by (simp only: set_sort)
  have "Max (set xs) = last (sort xs)" using le m by (intro Max_eqI) auto
  then show ?thesis by simp
qed

lemma apply_rows_index1_ok:
  "\<forall>entry\<in>set rows. 2 \<le> length entry \<Longrightarrow> apply_rows index1 rows = Inr (map (\<lambda>entry. entry ! 1) rows)"
proof (induction rows)
  case Nil then show ?case by simp
next
  case (Cons e rows)
  then have "2 \<le> length e" by simp
  then obtain x y zs where "e = x # y # zs" by (cases e; cases "tl e") auto
  with Cons show ?case by (simp add: index1_def)
qed

lemma apply_rows_index1_short:
  "\<exists>entry\<in>set rows. length entry < 2 \<Longrightarrow> \<exists>e. apply_rows index1 rows = Inl e"
proof -
  assume "\<exists>entry\<in>set rows. length entry < 2"
  then obtain entry where e: "entry \<in> set rows" "length entry < 2" by blast
  then have "index1 entry = Inl IndexError"
    by (auto simp: index1_def split: list.splits)
  with e show ?thesis by (blast intro: apply_rows_Inl)
qed

lemma archive_ok:
  assumes "url \<noteq> []" "requests_get url = Inr resp" "status_code resp = 200"
    "json_body resp = Inr data" "2 \<le> length data" "apply_rows index1 (drop 1 data) = Inr ts"
  shows "get_oldest_and_newest_archive_date requests_get url =
           ((Some (format_date (Min (set ts))), Some (format_date (Max (set ts)))), [HttpGet url])"
proof -
  from apply_rows_Inr[OF assms(6)] assms(5) have "ts \<noteq> []" by auto
  then have s: "sort ts \<noteq> []" by (metis length_0_conv length_sort)
  then have f: "index_first (sort ts) = Inr (Min (set ts))"
    using hd_sort_Min[OF \<open>ts \<noteq> []\<close>] by (cases "sort ts") (auto simp: index_first_def)
  have l: "index_last (sort ts) = Inr (Max (set ts))"
    using s last_sort_Max[OF \<open>ts \<noteq> []\<close>] by (simp add: index_last_def)
  show ?thesis
    using assms f l by (simp add: get_oldest_and_newest_archive_date_def)
qed

lemma archive_cases:
  "fst (get_oldest_and_newest_archive_date requests_get url) = (None, None) \<or>
   (\<exists>resp data ts. url \<noteq> [] \<and> requests_get url = Inr resp \<and> status_code resp = 200 \<and>
      json_body resp = Inr data \<and> 2 \<le> length data \<and> apply_rows index1 (drop 1 data) = Inr ts)"
  by (auto simp: get_oldest_and_newest_archive_date_def split: sum.splits)

text \<open>
  C4. For the empty website string the lookup returns (None, None) and sends no request.
  It returns (None, None) when the request raises, when the status is not 200, when
  \<^verbatim>\<open>json()\<close> raises, when the answer has fewer than two rows, and when a data row has
  no second column (IndexError, caught). Otherwise it returns the least and the greatest
  of the timestamps of the data rows, each formatted by slicing its first eight
  characters into \<^verbatim>\<open>YYYY-MM-DD\<close>; the timestamp 20190315120000 formats to
  2019-03-15.
\<close>

theorem archive_lookup_contract:
  "get_oldest_and_newest_archive_date requests_get [] = ((None, None), []) \<and>
   (url \<noteq> [] \<and> requests_get url = Inl e \<longrightarrow>
      fst (get_oldest_and_newest_archive_date requests_get url) = (None, None)) \<and>
   (url \<noteq> [] \<and> requests_get url = Inr resp \<and>
      (status_code resp \<noteq> 200 \<or> json_body resp = Inl e \<or>
       json_body resp = Inr data \<and> (length data < 2 \<or> (\<exists>entry\<in>set (drop 1 data). length entry < 2))) \<longrightarrow>
      fst (get_oldest_and_newest_archive_date requests_get url) = (None, None)) \<and>
   (url \<noteq> [] \<and> requests_get url = Inr resp \<and> status_code resp = 200 \<and> json_body resp = Inr data \<and>
      2 \<le> length data \<and> (\<forall>entry\<in>set (drop 1 data). 2 \<le> length entry) \<longrightarrow>
      get_oldest_and_newest_archive_date requests_get url =
        ((Some (format_date (Min (set (map (\<lambda>entry. entry ! 1) (drop 1 data))))),
          Some (format_date (Max (set (map (\<lambda>entry. entry ! 1) (drop 1 data)))))),
         [HttpGet url])) \<and>
   (length y = 4 \<and> length m = 2 \<and> length d = 2 \<longrightarrow>
      format_date (y @ m @ d @ rest) = y @ ''-'' @ m @ ''-'' @ d) \<and>
   format_date ''20190315120000'' = ''2019-03-15''"
proof (intro conjI impI)
  show "get_oldest_and_newest_archive_date requests_get [] = ((None, None), [])"
    by (simp add: get_oldest_and_newest_archive_date_def)
next
  assume "url \<noteq> [] \<and> requests_get url = Inl e"
  then show "fst (get_oldest_and_newest_archive_date requests_get url) = (None, None)"
    by (simp add: get_oldest_and_newest_archive_date_def)
next
  assume h: "url \<noteq> [] \<and> requests_get url = Inr resp \<and>
      (status_code resp \<noteq> 200 \<or> json_body resp = Inl e \<or>
       json_body resp = Inr data \<and> (length data < 2 \<or> (\<exists>entry\<in>set (drop 1 data). length entry < 2)))"
  show "fst (get_oldest_and_newest_archive_date requests_get url) = (None, None)"
  proof (rule disjE[OF archive_cases[of requests_get url]])
    assume "\<exists>resp data ts. url \<noteq> [] \<and> requests_get url = Inr resp \<and> status_code resp = 200 \<and>
      json_body resp = Inr data \<and> 2 \<le> length data \<and> apply_rows index1 (drop 1 data) = Inr ts"
    then obtain data' ts where o: "status_code resp = 200" "json_body resp = Inr data'"
      "2 \<le> length data'" "apply_rows index1 (drop 1 data') = Inr ts"
      using h by auto
    with h have "\<exists>entry\<in>set (drop 1 data'). length entry < 2" by auto
    from apply_rows_index1_short[OF this] o(4) show ?thesis by auto
  qed
next
  assume h: "url \<noteq> [] \<and> requests_get url = Inr resp \<and> status_code resp = 200 \<and> json_body resp = Inr data \<and>
      2 \<le> length data \<and> (\<forall>entry\<in>set (drop 1 data). 2 \<le> length entry)"
  then have "apply_rows index1 (drop 1 data) = Inr (map (\<lambda>entry. entry ! 1) (drop 1 data))"
    by (intro apply_rows_index1_ok) simp
  with h show "get_oldest_and_newest_archive_date requests_get url =
        ((Some (format_date (Min (set (map (\<lambda>entry. entry ! 1) (drop 1 data))))),
          Some (format_date (Max (set (map (\<lambda>entry. entry ! 1) (drop 1 data)))))),
         [HttpGet url])"
    by (intro archive_ok) auto
next
  assume "length y = 4 \<and> length m = 2 \<and> length d = 2"
  then show "format_date (y @ m @ d @ rest) = y @ ''-'' @ m @ ''-'' @ d"
    by (simp add: format_date_def)
next
  show "format_date ''20190315120000'' = ''2019-03-15''"
    by (simp add: format_date_def)
qed

theorem archive_lookup_contract_witness:
  "get_oldest_and_newest_archive_date example_index ''example.at'' =
     ((Some ''2010-12-31'', Some ''2019-03-15''), [HttpGet ''example.at''])"
proof -
  let ?data = "[[''urlkey'', ''timestamp'', ''original''],
      [''at,example)/'', ''20190315120000'', ''http://example.at/''],
      [''at,example)/'', ''20101231235959'', ''http://example.at/''],
      [''at,example)/'', ''20150101000000'', ''http://example.at/'']]"
  let ?resp = "\<lparr>status_code = 200, json_body = Inr ?data\<rparr>"
  have h: "''example.at'' \<noteq> [] \<and> example_index ''example.at'' = Inr ?resp \<and> status_code ?resp = 200 \<and>
     json_body ?resp = Inr ?data \<and> 2 \<le> length ?data \<and> (\<forall>entry\<in>set (drop 1 ?data). 2 \<le> length entry)"
    by (simp add: example_index_def)
  have mn: "format_date (Min (set (map (\<lambda>entry. entry ! 1) (drop 1 ?data)))) = ''2010-12-31''"
    by code_simp
  have mx: "format_date (Max (set (map (\<lambda>entry. entry ! 1) (drop 1 ?data)))) = ''2019-03-15''"
    by code_simp
  from archive_lookup_contract[of example_index "''example.at''" e ?resp ?data y m d rest] h
  have "get_oldest_and_newest_archive_date example_index ''example.at'' =
        ((Some (format_date (Min (set (map (\<lambda>entry. entry ! 1) (drop 1 ?data))))),
          Some (format_date (Max (set (map (\<lambda>entry. entry ! 1) (drop 1 ?data)))))),
         [HttpGet ''example.at''])"
    by blast
  then show ?thesis by (simp only: mn mx)
qed



end
